theory Spec2Isabelle
  imports Complex_Main "HOL-Library.Word"
begin

section \<open>Data model\<close>

text \<open>
  The harness of package \<open>siatest\<close> drives a storage node through its HTTP client and
  polls the state the node reports. The model below follows the Go source function by
  function. Go's \<open>(value, error)\<close> results are pairs whose second component is an
  \<open>error option\<close> (\<open>None\<close> is the nil error), pointers that may be nil are
  options, and every call that talks to the node or to the disk takes the state of the
  outside world and returns the new one.
\<close>

type_synonym Hash = "8 word list"

type_synonym Duration = int

text \<open>
  Errors. \<open>New\<close> is \<open>errors.New\<close>, \<open>Errorf\<close> is \<open>fmt.Errorf\<close> with a format
  string and the (float64) values formatted into it, \<open>Error\<close> is the composed error of
  the \<open>NebulousLabs/errors\<close> library with its \<open>ErrSet\<close>. \<open>NilDeref\<close> stands for
  the run-time panic of dereferencing a nil pointer.
\<close>

datatype 'f error =
    New string
  | Errorf string "'f list"
  | Error "'f error list"
  | NilDeref

text \<open>
  \<open>errors.Extend\<close> and \<open>errors.AddContext\<close> of the \<open>NebulousLabs/errors\<close>
  library: extending puts the extension in front of the error set of the original error,
  and adding context to the nil error gives the nil error.
\<close>

definition ErrSet :: "'f error \<Rightarrow> 'f error list" where
  "ErrSet e = (case e of Error es \<Rightarrow> es | _ \<Rightarrow> [e])"

definition Extend :: "'f error option \<Rightarrow> 'f error option \<Rightarrow> 'f error option" where
  "Extend err extension =
     (case err of
        None \<Rightarrow> extension
      | Some e \<Rightarrow>
          (case extension of
             None \<Rightarrow> Some e
           | Some x \<Rightarrow> Some (Error (ErrSet x @ ErrSet e))))"

definition AddContext :: "'f error option \<Rightarrow> string \<Rightarrow> 'f error option" where
  "AddContext err s = (if err = None then None else Extend err (Some (New s)))"

record LocalFile =
  path :: string
  checksum :: Hash

record RemoteFile =
  siaPath :: string
  checksum :: Hash

text \<open>The fields of \<open>api.DownloadInfo\<close> and \<open>modules.FileInfo\<close> that the harness reads.\<close>

record api_DownloadInfo =
  Destination :: string
  Filesize :: "64 word"
  Length :: "64 word"
  Received :: "64 word"
  SiaPath :: string
  Completed :: bool
  TotalDataTransferred :: "64 word"

record 'f modules_FileInfo =
  SiaPath :: string
  Filesize :: "64 word"
  UploadProgress :: 'f
  Redundancy :: 'f

text \<open>
  The node as the harness sees it: the client calls of \<open>TestNode\<close>, and the helpers of
  the package and of the standard library that touch the disk, the clock or the random
  source. \<open>'w\<close> is the state of the outside world, \<open>'f\<close> the type of float64 values, of
  which only \<open>0\<close>, \<open>1\<close>, \<open><\<close>, \<open>/\<close> and the conversion from uint64 are used.
\<close>

record ('w, 'f) TestNode =
  RenterDownloadsGet :: "'w \<Rightarrow> (api_DownloadInfo list \<times> 'f error option) \<times> 'w"
  RenterFilesGet :: "'w \<Rightarrow> ('f modules_FileInfo list \<times> 'f error option) \<times> 'w"
  RenterUploadPost :: "string \<Rightarrow> string \<Rightarrow> 64 word \<Rightarrow> 64 word \<Rightarrow> 'w \<Rightarrow> 'f error option \<times> 'w"
  RenterDownloadGet ::
    "string \<Rightarrow> string \<Rightarrow> 64 word \<Rightarrow> 64 word \<Rightarrow> bool \<Rightarrow> 'w \<Rightarrow> 'f error option \<times> 'w"
  RenterDownloadHTTPResponseGet ::
    "string \<Rightarrow> 64 word \<Rightarrow> 64 word \<Rightarrow> 'w \<Rightarrow> (8 word list \<times> 'f error option) \<times> 'w"
  NewFile :: "int \<Rightarrow> 'w \<Rightarrow> ('f error + LocalFile) \<times> 'w"
  checkIntegrity :: "LocalFile \<Rightarrow> 'w \<Rightarrow> 'f error option \<times> 'w"
  fileName :: "LocalFile \<Rightarrow> string"
  HashAll :: "8 word list \<Rightarrow> Hash"
  fastrand_Intn :: "int \<Rightarrow> 'w \<Rightarrow> int \<times> 'w"
  SiaTestingDir :: string
  filepath_Join :: "string \<Rightarrow> string \<Rightarrow> string"
  float64_of_uint64 :: "64 word \<Rightarrow> 'f"
  Sleep :: "Duration \<Rightarrow> 'w \<Rightarrow> 'w"

definition Millisecond :: Duration where
  "Millisecond = 1000000"

definition MaxInt32 :: int where
  "MaxInt32 = 2147483647"

fun digits :: "nat \<Rightarrow> string" where
  "digits n =
     (if n < 10 then [char_of (48 + n)]
      else digits (n div 10) @ [char_of (48 + n mod 10)])"

definition Itoa :: "int \<Rightarrow> string" where
  "Itoa i = (if i < 0 then CHR ''-'' # digits (nat (- i)) else digits (nat i))"

section \<open>The retry engine\<close>

text \<open>
  Modelled from the spec: \<open>Retry\<close> is defined in a file of the repository that is not
  among the sources at hand. Section 4.1 of the specification: the check is invoked up
  to \<open>maxAttempts\<close> times; after each failing attempt except the last the caller is
  suspended for \<open>interval\<close>; the first successful attempt ends the loop with success;
  when every attempt fails the error of the final attempt is returned. With no attempt
  at all (a budget below one) nothing fails, and the result is success.
\<close>

fun Retry_loop ::
  "nat \<Rightarrow> Duration \<Rightarrow> ('w \<Rightarrow> 'f error option \<times> 'w) \<Rightarrow> (Duration \<Rightarrow> 'w \<Rightarrow> 'w) \<Rightarrow> 'w
     \<Rightarrow> 'f error option \<times> 'w" where
  "Retry_loop 0 interval check sleep w = (None, w)"
| "Retry_loop (Suc n) interval check sleep w =
     (let (err, w1) = check w in
      if err = None then (None, w1)
      else if n = 0 then (err, w1)
      else Retry_loop n interval check sleep (sleep interval w1))"

text \<open>
  Modelled from the spec: the entry point \<open>retry(maxAttempts, interval, check)\<close> of
  section 4.1, with the budget an integer as there; the clock it sleeps on is the node's.
\<close>

definition Retry ::
  "('w, 'f) TestNode \<Rightarrow> int \<Rightarrow> Duration \<Rightarrow> ('w \<Rightarrow> 'f error option \<times> 'w) \<Rightarrow> 'w
     \<Rightarrow> 'f error option \<times> 'w" where
  "Retry tn maxAttempts interval check w =
     Retry_loop (nat maxAttempts) interval check (Sleep tn) w"

section \<open>The harness\<close>

definition Files ::
  "('w, 'f) TestNode \<Rightarrow> 'w \<Rightarrow> ('f modules_FileInfo list \<times> 'f error option) \<times> 'w" where
  "Files tn w =
     (let ((rf, err), w1) = RenterFilesGet tn w in
      if err \<noteq> None then (([], err), w1) else ((rf, err), w1))"

definition FileInfo_zero :: "('f::zero) modules_FileInfo" where
  "FileInfo_zero =
     \<lparr>modules_FileInfo.SiaPath = [], modules_FileInfo.Filesize = 0,
      UploadProgress = 0, Redundancy = 0\<rparr>"

definition FileInfo ::
  "('w, 'f::zero) TestNode \<Rightarrow> RemoteFile \<Rightarrow> 'w
     \<Rightarrow> ('f modules_FileInfo \<times> 'f error option) \<times> 'w" where
  "FileInfo tn rf w =
     (let ((files, err), w1) = Files tn w in
      if err \<noteq> None then ((FileInfo_zero, err), w1)
      else
        (case find (\<lambda>file. modules_FileInfo.SiaPath file = siaPath rf) files of
           Some file \<Rightarrow> ((file, None), w1)
         | None \<Rightarrow> ((FileInfo_zero, Some (New ''file is not tracked by the renter'')), w1)))"

definition DownloadToDisk ::
  "('w, 'f::zero) TestNode \<Rightarrow> RemoteFile \<Rightarrow> bool \<Rightarrow> 'w
     \<Rightarrow> (LocalFile option \<times> 'f error option) \<times> 'w" where
  "DownloadToDisk tn rf async w =
     (let ((fi, err), w1) = FileInfo tn rf w in
      if err \<noteq> None then ((None, AddContext err ''failed to retrieve FileInfo''), w1)
      else
        let (r, w2) = fastrand_Intn tn MaxInt32 w1;
            fileName = Itoa r;
            dest = filepath_Join tn (SiaTestingDir tn) fileName;
            (err, w3) =
              RenterDownloadGet tn (siaPath rf) dest 0 (modules_FileInfo.Filesize fi) async w2
        in
        if err \<noteq> None then ((None, AddContext err ''failed to download file''), w3)
        else
          let lf = \<lparr>path = dest, LocalFile.checksum = RemoteFile.checksum rf\<rparr> in
          if async then ((Some lf, None), w3)
          else
            let (err, w4) = checkIntegrity tn lf w3 in
            if err \<noteq> None
            then ((Some lf, AddContext err ''downloaded file's checksum doesn't match''), w4)
            else ((Some lf, None), w4))"

definition DownloadByStream ::
  "('w, 'f::zero) TestNode \<Rightarrow> RemoteFile \<Rightarrow> 'w \<Rightarrow> (8 word list \<times> 'f error option) \<times> 'w" where
  "DownloadByStream tn rf w =
     (let ((fi, err), w1) = FileInfo tn rf w in
      if err \<noteq> None then (([], AddContext err ''failed to retrieve FileInfo''), w1)
      else
        let ((data, err), w2) =
              RenterDownloadHTTPResponseGet tn (siaPath rf) 0 (modules_FileInfo.Filesize fi) w1;
            err =
              (if err = None \<and> RemoteFile.checksum rf \<noteq> HashAll tn data
               then Some (New ''downloaded bytes don't match requested data'')
               else err)
        in ((data, err), w2))"

definition DownloadInfo ::
  "('w, 'f) TestNode \<Rightarrow> LocalFile \<Rightarrow> RemoteFile \<Rightarrow> 'w
     \<Rightarrow> (api_DownloadInfo option \<times> 'f error option) \<times> 'w" where
  "DownloadInfo tn lf rf w =
     (let ((rdq, err), w1) = RenterDownloadsGet tn w in
      if err \<noteq> None then ((None, err), w1)
      else
        (case find (\<lambda>d. siaPath rf = api_DownloadInfo.SiaPath d \<and> path lf = Destination d) rdq of
           None \<Rightarrow> ((None, Some (New ''download info not found'')), w1)
         | Some di \<Rightarrow>
             let err =
                   (if Length di \<noteq> api_DownloadInfo.Filesize di
                    then AddContext err ''filesize != length'' else err);
                 err =
                   (if Received di > TotalDataTransferred di
                    then AddContext err ''received > TotalDataTransfered'' else err);
                 err =
                   (if Completed di \<and> Received di \<noteq> Length di
                    then AddContext err ''completed == true but received != length'' else err)
             in ((Some di, err), w1)))"

definition Upload ::
  "('w, 'f::zero) TestNode \<Rightarrow> LocalFile \<Rightarrow> 64 word \<Rightarrow> 64 word \<Rightarrow> 'w
     \<Rightarrow> (RemoteFile option \<times> 'f error option) \<times> 'w" where
  "Upload tn lf dataPieces parityPieces w =
     (let (err, w1) =
            RenterUploadPost tn (path lf) (''/'' @ fileName tn lf) dataPieces parityPieces w
      in
      if err \<noteq> None then ((None, err), w1)
      else
        let rf = \<lparr>siaPath = fileName tn lf, checksum = LocalFile.checksum lf\<rparr>;
            ((fi, err), w2) = FileInfo tn rf w1
        in
        if err \<noteq> None
        then ((Some rf, AddContext err ''uploaded file is not tracked by the renter''), w2)
        else ((Some rf, None), w2))"


definition progress_check ::
  "('w, 'f::{zero,ord}) TestNode \<Rightarrow> RemoteFile \<Rightarrow> 'f \<Rightarrow> 'w \<Rightarrow> 'f error option \<times> 'w" where
  "progress_check tn rf progress w =
     (let ((file, err), w1) = FileInfo tn rf w in
      if err \<noteq> None then (AddContext err ''couldn't retrieve FileInfo'', w1)
      else if UploadProgress file < progress
      then (Some (Errorf ''progress should be %v but was %v'' [progress, UploadProgress file]), w1)
      else (None, w1))"

definition WaitForUploadProgress ::
  "('w, 'f::{zero,ord}) TestNode \<Rightarrow> RemoteFile \<Rightarrow> 'f \<Rightarrow> 'w \<Rightarrow> 'f error option \<times> 'w" where
  "WaitForUploadProgress tn rf progress w =
     (let ((fi, err), w1) = FileInfo tn rf w in
      if err \<noteq> None then (Some (New ''file is not tracked by renter''), w1)
      else Retry tn 1000 (100 * Millisecond) (progress_check tn rf progress) w1)"

definition redundancy_check ::
  "('w, 'f::{zero,ord}) TestNode \<Rightarrow> RemoteFile \<Rightarrow> 'f \<Rightarrow> 'w \<Rightarrow> 'f error option \<times> 'w" where
  "redundancy_check tn rf redundancy w =
     (let ((file, err), w1) = FileInfo tn rf w in
      if err \<noteq> None then (AddContext err ''couldn't retrieve FileInfo'', w1)
      else if Redundancy file < redundancy
      then (Some (Errorf ''redundancy should be %v but was %v'' [redundancy, Redundancy file]), w1)
      else (None, w1))"

definition WaitForUploadRedundancy ::
  "('w, 'f::{zero,ord}) TestNode \<Rightarrow> RemoteFile \<Rightarrow> 'f \<Rightarrow> 'w \<Rightarrow> 'f error option \<times> 'w" where
  "WaitForUploadRedundancy tn rf redundancy w =
     (let ((fi, err), w1) = FileInfo tn rf w in
      if err \<noteq> None then (Some (New ''file is not tracked by renter''), w1)
      else Retry tn 1000 (100 * Millisecond) (redundancy_check tn rf redundancy) w1)"


definition download_check ::
  "('w, 'f) TestNode \<Rightarrow> LocalFile \<Rightarrow> RemoteFile \<Rightarrow> 'w \<Rightarrow> 'f error option \<times> 'w" where
  "download_check tn lf rf w =
     (let ((file, err), w1) = DownloadInfo tn lf rf w in
      if err \<noteq> None then (AddContext err ''couldn't retrieve DownloadInfo'', w1)
      else
        (case file of
           None \<Rightarrow> (None, w1)
         | Some f \<Rightarrow>
             if \<not> Completed f then (Some (New ''download hasn't finished yet''), w1)
             else (None, w1)))"

definition WaitForDownload ::
  "('w, 'f) TestNode \<Rightarrow> LocalFile \<Rightarrow> RemoteFile \<Rightarrow> 'w \<Rightarrow> 'f error option \<times> 'w" where
  "WaitForDownload tn lf rf w =
     (let (err, w1) = Retry tn 1000 (100 * Millisecond) (download_check tn lf rf) w in
      if err \<noteq> None then (err, w1)
      else checkIntegrity tn lf w1)"

section \<open>Observing a run\<close>

text \<open>
  To speak about how often and in which order the harness calls the node, the clock and
  the disk, any node is turned into one that records every call in a log kept next to the
  world. The harness is polymorphic in the world, so a run on the recording node is a run
  of the same code, and the world component of its result is the one of the plain run.
\<close>

datatype 'f event =
    EvRenterDownloadsGet "api_DownloadInfo list" "'f error option"
  | EvRenterFilesGet "'f modules_FileInfo list" "'f error option"
  | EvRenterUploadPost string string "64 word" "64 word"
  | EvRenterDownloadGet string string "64 word" "64 word" bool
  | EvRenterDownloadHTTPResponseGet string "64 word" "64 word"
  | EvNewFile int
  | EvCheckIntegrity LocalFile
  | EvIntn int
  | EvSleep Duration
  | EvCheck "'f error option"

definition traced :: "('w, 'f) TestNode \<Rightarrow> ('w \<times> 'f event list, 'f) TestNode" where
  "traced tn =
     \<lparr>RenterDownloadsGet =
        (\<lambda>(w, tr). let ((rdq, err), w1) = RenterDownloadsGet tn w
                    in ((rdq, err), (w1, tr @ [EvRenterDownloadsGet rdq err]))),
      RenterFilesGet =
        (\<lambda>(w, tr). let ((rf, err), w1) = RenterFilesGet tn w
                    in ((rf, err), (w1, tr @ [EvRenterFilesGet rf err]))),
      RenterUploadPost =
        (\<lambda>src dst d p (w, tr). let (err, w1) = RenterUploadPost tn src dst d p w
                    in (err, (w1, tr @ [EvRenterUploadPost src dst d p]))),
      RenterDownloadGet =
        (\<lambda>sp dst off len async (w, tr).
           let (err, w1) = RenterDownloadGet tn sp dst off len async w
           in (err, (w1, tr @ [EvRenterDownloadGet sp dst off len async]))),
      RenterDownloadHTTPResponseGet =
        (\<lambda>sp off len (w, tr).
           let (r, w1) = RenterDownloadHTTPResponseGet tn sp off len w
           in (r, (w1, tr @ [EvRenterDownloadHTTPResponseGet sp off len]))),
      NewFile =
        (\<lambda>size (w, tr). let (r, w1) = NewFile tn size w in (r, (w1, tr @ [EvNewFile size]))),
      checkIntegrity =
        (\<lambda>lf (w, tr). let (err, w1) = checkIntegrity tn lf w
                       in (err, (w1, tr @ [EvCheckIntegrity lf]))),
      fileName = fileName tn,
      HashAll = HashAll tn,
      fastrand_Intn =
        (\<lambda>bound (w, tr). let (r, w1) = fastrand_Intn tn bound w
                          in (r, (w1, tr @ [EvIntn bound]))),
      SiaTestingDir = SiaTestingDir tn,
      filepath_Join = filepath_Join tn,
      float64_of_uint64 = float64_of_uint64 tn,
      Sleep = (\<lambda>d (w, tr). (Sleep tn d w, tr @ [EvSleep d]))\<rparr>"

definition logged ::
  "('w \<Rightarrow> 'f error option \<times> 'w) \<Rightarrow> 'w \<times> 'f event list
     \<Rightarrow> 'f error option \<times> 'w \<times> 'f event list" where
  "logged check = (\<lambda>(w, tr). let (err, w1) = check w in (err, (w1, tr @ [EvCheck err])))"

text \<open>The entry that a listing of the tracked files made in world \<open>w\<close> leaves in the log.\<close>

definition listed :: "('w, 'f) TestNode \<Rightarrow> 'w \<Rightarrow> 'f event" where
  "listed tn w =
     EvRenterFilesGet (fst (fst (RenterFilesGet tn w))) (snd (fst (RenterFilesGet tn w)))"



section \<open>A simulated node\<close>

text \<open>
  A node for concrete runs. The world is the number of requests the node has answered so
  far; the download queue and the list of tracked files it reports depend on that number,
  so that a run can watch the reported state change between polls. Float64 values are
  real numbers here.
\<close>

definition sim_node ::
  "(nat \<Rightarrow> api_DownloadInfo list \<times> real error option)
     \<Rightarrow> (nat \<Rightarrow> real modules_FileInfo list \<times> real error option)
     \<Rightarrow> (LocalFile \<Rightarrow> real error option) \<Rightarrow> (nat, real) TestNode" where
  "sim_node downloads files integrity =
     \<lparr>RenterDownloadsGet = (\<lambda>n. (downloads n, Suc n)),
      RenterFilesGet = (\<lambda>n. (files n, Suc n)),
      RenterUploadPost = (\<lambda>src dst d p n. (None, Suc n)),
      RenterDownloadGet = (\<lambda>sp dst off len async n. (None, Suc n)),
      RenterDownloadHTTPResponseGet = (\<lambda>sp off len n. (([1, 2, 3], None), Suc n)),
      NewFile = (\<lambda>size n. (Inr \<lparr>path = ''/tmp/up'', LocalFile.checksum = [1, 2, 3]\<rparr>, n)),
      checkIntegrity = (\<lambda>lf n. (integrity lf, n)),
      fileName = (\<lambda>lf. ''up''),
      HashAll = (\<lambda>data. data),
      fastrand_Intn = (\<lambda>bound n. (42, n)),
      SiaTestingDir = ''/tmp'',
      filepath_Join = (\<lambda>a b. a @ ''/'' @ b),
      float64_of_uint64 = (\<lambda>x. real (unat x)),
      Sleep = (\<lambda>d n. n)\<rparr>"

definition demo_local :: LocalFile where
  "demo_local = \<lparr>path = ''/tmp/42'', LocalFile.checksum = [1, 2, 3]\<rparr>"

definition demo_remote :: RemoteFile where
  "demo_remote = \<lparr>siaPath = ''up'', checksum = [1, 2, 3]\<rparr>"

definition demo_download :: "64 word \<Rightarrow> 64 word \<Rightarrow> bool \<Rightarrow> api_DownloadInfo" where
  "demo_download received transferred completed =
     \<lparr>Destination = ''/tmp/42'', api_DownloadInfo.Filesize = 10, Length = 10,
      Received = received, api_DownloadInfo.SiaPath = ''up'', Completed = completed,
      TotalDataTransferred = transferred\<rparr>"

definition demo_file :: "real \<Rightarrow> real \<Rightarrow> real modules_FileInfo" where
  "demo_file progress redundancy =
     \<lparr>modules_FileInfo.SiaPath = ''up'', modules_FileInfo.Filesize = 10,
      UploadProgress = progress, Redundancy = redundancy\<rparr>"

text \<open>
  The nodes of the concrete runs: one that reports nothing, one that reports a single
  download record, one that tracks the uploaded file at full progress and a redundancy of
  2, the same with a local file that fails its integrity check, and one that tracks the
  file at half progress for its first 1000 answers and refuses every later listing.
\<close>

definition idle_node :: "(nat, real) TestNode" where
  "idle_node = sim_node (\<lambda>n. ([], None)) (\<lambda>n. ([], None)) (\<lambda>lf. None)"

definition queue_node :: "api_DownloadInfo \<Rightarrow> (nat, real) TestNode" where
  "queue_node d = sim_node (\<lambda>n. ([d], None)) (\<lambda>n. ([], None)) (\<lambda>lf. None)"

definition tracked_node :: "(nat, real) TestNode" where
  "tracked_node = sim_node (\<lambda>n. ([], None)) (\<lambda>n. ([demo_file 1 2], None)) (\<lambda>lf. None)"

definition mismatch_node :: "(nat, real) TestNode" where
  "mismatch_node =
     sim_node (\<lambda>n. ([], None)) (\<lambda>n. ([demo_file 1 2], None))
       (\<lambda>lf. Some (New ''checksum mismatch''))"

definition refusing_node :: "(nat, real) TestNode" where
  "refusing_node =
     sim_node (\<lambda>n. ([], None))
       (\<lambda>n. if n < 1000 then ([demo_file (1 / 2) 2], None)
             else ([], Some (New ''connection refused'')))
       (\<lambda>lf. None)"



text \<open>A check that fails in the first world and succeeds from then on.\<close>

definition demo_check :: "nat \<Rightarrow> real error option \<times> nat" where
  "demo_check n = (if n < 1 then Some (New ''not yet'') else None, Suc n)"

section \<open>Basic facts\<close>

lemma AddContext_None: "AddContext None s = None"
  by (simp add: AddContext_def)

lemma AddContext_Some: "AddContext (Some e) s = Some (Error (New s # ErrSet e))"
  by (simp add: AddContext_def Extend_def ErrSet_def)

lemma AddContext_eq_None: "AddContext err s = None \<longleftrightarrow> err = None"
  by (cases err) (simp_all add: AddContext_None AddContext_Some)

lemma traced_RenterFilesGet:
  "RenterFilesGet (traced tn) (w, tr) =
     (fst (RenterFilesGet tn w),
      (snd (RenterFilesGet tn w),
       tr @ [EvRenterFilesGet (fst (fst (RenterFilesGet tn w))) (snd (fst (RenterFilesGet tn w)))]))"
  by (simp add: traced_def split: prod.splits)

lemma traced_Files:
  "Files (traced tn) (w, tr) =
     (fst (Files tn w),
      (snd (Files tn w),
       tr @ [EvRenterFilesGet (fst (fst (RenterFilesGet tn w))) (snd (fst (RenterFilesGet tn w)))]))"
  by (simp add: Files_def traced_RenterFilesGet split: prod.splits)

lemma traced_FileInfo:
  "FileInfo (traced tn) rf (w, tr) =
     (fst (FileInfo tn rf w),
      (snd (FileInfo tn rf w),
       tr @ [EvRenterFilesGet (fst (fst (RenterFilesGet tn w))) (snd (fst (RenterFilesGet tn w)))]))"
  by (simp add: FileInfo_def traced_Files split: prod.splits option.splits)

lemma traced_consts:
  "fileName (traced tn) = fileName tn"
  "HashAll (traced tn) = HashAll tn"
  "SiaTestingDir (traced tn) = SiaTestingDir tn"
  "filepath_Join (traced tn) = filepath_Join tn"
  "float64_of_uint64 (traced tn) = float64_of_uint64 tn"
  by (simp_all add: traced_def)

lemma traced_calls:
  "fastrand_Intn (traced tn) b (w, tr) =
     (fst (fastrand_Intn tn b w), (snd (fastrand_Intn tn b w), tr @ [EvIntn b]))"
  "RenterDownloadGet (traced tn) sp dst off len a (w, tr) =
     (fst (RenterDownloadGet tn sp dst off len a w),
      (snd (RenterDownloadGet tn sp dst off len a w), tr @ [EvRenterDownloadGet sp dst off len a]))"
  "checkIntegrity (traced tn) lf (w, tr) =
     (fst (checkIntegrity tn lf w), (snd (checkIntegrity tn lf w), tr @ [EvCheckIntegrity lf]))"
  "Sleep (traced tn) d (w, tr) = (Sleep tn d w, tr @ [EvSleep d])"
  by (simp_all add: traced_def split: prod.splits)

text \<open>
  A record that is found is returned with the error of the listing call, which is nil at
  that point: adding context to the nil error leaves it nil, whatever the record holds.
\<close>

lemma DownloadInfo_found:
  assumes "RenterDownloadsGet tn w = ((rdq, None), w1)"
    and "find (\<lambda>d. siaPath rf = api_DownloadInfo.SiaPath d \<and> path lf = Destination d) rdq = Some di"
  shows "DownloadInfo tn lf rf w = ((Some di, None), w1)"
  using assms by (simp add: DownloadInfo_def AddContext_None Let_def)

lemma Itoa_42: "Itoa 42 = ''42''"
  by code_simp

lemma sim_FileInfo:
  "FileInfo (sim_node dls (\<lambda>n. ([demo_file p r], None)) chk) demo_remote n
     = ((demo_file p r, None), Suc n)"
  by (simp add: FileInfo_def Files_def sim_node_def demo_file_def demo_remote_def)

section \<open>Download records\<close>

text \<open>
  C1 (as amended). When the listing of downloads succeeds and no reported record matches
  both the remote path and the local destination, \<open>DownloadInfo\<close> returns no record
  together with the error "download info not found"; the world is the one left by the
  single listing call.
\<close>

theorem DownloadInfo_not_found:
  assumes "RenterDownloadsGet tn w = ((rdq, None), w1)"
    and "\<forall>d \<in> set rdq. \<not> (siaPath rf = api_DownloadInfo.SiaPath d \<and> path lf = Destination d)"
  shows "DownloadInfo tn lf rf w = ((None, Some (New ''download info not found'')), w1)"
proof -
  from assms(2)
  have "find (\<lambda>d. siaPath rf = api_DownloadInfo.SiaPath d \<and> path lf = Destination d) rdq = None"
    by (simp add: find_None_iff)
  with assms(1) show ?thesis by (simp add: DownloadInfo_def)
qed

theorem DownloadInfo_not_found_witness:
  "DownloadInfo idle_node demo_local demo_remote 0
     = ((None, Some (New ''download info not found'')), 1)"
  unfolding idle_node_def
  using DownloadInfo_not_found
    [of "sim_node (\<lambda>n. ([], None)) (\<lambda>n. ([], None)) (\<lambda>lf. None)" 0 "[]" 1 demo_remote demo_local]
  by (simp add: sim_node_def)

text \<open>
  The claim as written fails: with an empty download queue the returned error is not nil.
\<close>

theorem DownloadInfo_not_found_counterexample:
  "snd (fst (DownloadInfo idle_node
               demo_local demo_remote 0)) \<noteq> None"
  unfolding idle_node_def
  by (simp add: DownloadInfo_def sim_node_def)

text \<open>
  C3. A matching record that violates an invariant should come back with an error naming
  the violation. The code does return the record, but never an error: for the record of
  the scenario (10 bytes received, 5 transferred) the error is nil.
\<close>

theorem DownloadInfo_inconsistent_record_no_error:
  "DownloadInfo
     (queue_node (demo_download 10 5 False))
     demo_local demo_remote 0
   = ((Some (demo_download 10 5 False), None), 1)"
  unfolding queue_node_def
  by (simp add: DownloadInfo_def sim_node_def demo_local_def demo_remote_def demo_download_def
      AddContext_def)

section \<open>Downloads\<close>

text \<open>
  C4. When the file is tracked and the transport delivers the bytes without error,
  \<open>DownloadByStream\<close> returns those bytes, and it returns them without error exactly
  when their hash is the checksum of the remote file; otherwise the error is the harness's
  own "downloaded bytes don't match requested data", not an error of the transport.
\<close>

theorem DownloadByStream_checksum:
  assumes "FileInfo tn rf w = ((fi, None), w1)"
    and "RenterDownloadHTTPResponseGet tn (siaPath rf) 0 (modules_FileInfo.Filesize fi) w1
           = ((data, None), w2)"
  shows "DownloadByStream tn rf w =
           ((data, if HashAll tn data = RemoteFile.checksum rf then None
                   else Some (New ''downloaded bytes don't match requested data'')), w2)
         \<and> (snd (fst (DownloadByStream tn rf w)) = None
              \<longleftrightarrow> HashAll tn data = RemoteFile.checksum rf)"
  using assms by (auto simp add: DownloadByStream_def)

theorem DownloadByStream_checksum_witness:
  "DownloadByStream tracked_node
     demo_remote 0
     = (([1, 2, 3], None), 2)
   \<and> DownloadByStream tracked_node
       (demo_remote\<lparr>checksum := [9]\<rparr>) 0
     = (([1, 2, 3], Some (New ''downloaded bytes don't match requested data'')), 2)"
proof -
  let ?tn = "sim_node (\<lambda>n. ([], None)) (\<lambda>n. ([demo_file 1 2], None)) (\<lambda>lf. None)"
  have f: "FileInfo ?tn rf 0 = ((demo_file 1 2, None), 1)" if "siaPath rf = ''up''" for rf
    using that by (simp add: FileInfo_def Files_def sim_node_def demo_file_def)
  have g: "RenterDownloadHTTPResponseGet ?tn (siaPath rf) 0
             (modules_FileInfo.Filesize (demo_file 1 2)) 1 = (([1, 2, 3], None), 2)" for rf
    by (simp add: sim_node_def)
  have h: "HashAll ?tn [1, 2, 3] = [1, 2, 3]" by (simp add: sim_node_def)
  show ?thesis unfolding tracked_node_def
    using DownloadByStream_checksum [OF f g, of demo_remote]
      DownloadByStream_checksum [OF f g, of "demo_remote\<lparr>checksum := [9]\<rparr>"] h
    by (simp add: demo_remote_def)
qed

text \<open>
  C7. When the file is tracked and the download is accepted, an asynchronous
  \<open>DownloadToDisk\<close> returns the local file at once: the calls made are the lookup, the
  random draw and the submission, and the integrity check is not among them. A blocking
  call runs the integrity check on that local file as its last step; when the check fails
  the local file is still returned, together with the error of the check under the
  context "downloaded file's checksum doesn't match".
\<close>

theorem DownloadToDisk_async_and_blocking:
  assumes fi: "FileInfo tn rf w = ((fi, None), w1)"
    and rnd: "fastrand_Intn tn MaxInt32 w1 = (r, w2)"
    and dl: "RenterDownloadGet tn (siaPath rf) (filepath_Join tn (SiaTestingDir tn) (Itoa r)) 0
               (modules_FileInfo.Filesize fi) async w2 = (None, w3)"
    and lf: "lf = \<lparr>path = filepath_Join tn (SiaTestingDir tn) (Itoa r),
                    LocalFile.checksum = RemoteFile.checksum rf\<rparr>"
    and tr: "tr = [EvRenterFilesGet (fst (fst (RenterFilesGet tn w))) (snd (fst (RenterFilesGet tn w))),
                   EvIntn MaxInt32,
                   EvRenterDownloadGet (siaPath rf) (path lf) 0 (modules_FileInfo.Filesize fi) async]"
  shows "DownloadToDisk (traced tn) rf async (w, []) =
           (if async then ((Some lf, None), (w3, tr))
            else ((Some lf,
                   (case fst (checkIntegrity tn lf w3) of
                      None \<Rightarrow> None
                    | Some e \<Rightarrow>
                        Some (Error (New ''downloaded file's checksum doesn't match'' # ErrSet e)))),
                  (snd (checkIntegrity tn lf w3), tr @ [EvCheckIntegrity lf])))
         \<and> DownloadToDisk tn rf async w =
           (if async then ((Some lf, None), w3)
            else ((Some lf,
                   (case fst (checkIntegrity tn lf w3) of
                      None \<Rightarrow> None
                    | Some e \<Rightarrow>
                        Some (Error (New ''downloaded file's checksum doesn't match'' # ErrSet e)))),
                  snd (checkIntegrity tn lf w3)))"
proof (cases async)
  case True
  with assms show ?thesis
    by (simp add: DownloadToDisk_def traced_FileInfo traced_calls traced_consts Let_def)
next
  case False
  with assms show ?thesis
    by (simp add: DownloadToDisk_def traced_FileInfo traced_calls traced_consts Let_def
        AddContext_Some AddContext_None split: prod.splits option.splits)
qed

theorem DownloadToDisk_async_and_blocking_witness:
  "DownloadToDisk
     mismatch_node
     demo_remote True 0
     = ((Some demo_local, None), 2)
   \<and> DownloadToDisk
     mismatch_node
     demo_remote False 0
     = ((Some demo_local,
         Some (Error [New ''downloaded file's checksum doesn't match'', New ''checksum mismatch''])),
        2)"
proof -
  let ?tn = "sim_node (\<lambda>n. ([], None)) (\<lambda>n. ([demo_file 1 2], None))
               (\<lambda>lf. Some (New ''checksum mismatch''))"
  have f: "FileInfo ?tn demo_remote 0 = ((demo_file 1 2, None), 1)"
    by (simp add: sim_FileInfo)
  have j: "filepath_Join ?tn (SiaTestingDir ?tn) (Itoa 42) = ''/tmp/42''"
    by (simp add: sim_node_def Itoa_42)
  have r: "fastrand_Intn ?tn MaxInt32 1 = (42, 1)"
    by (simp add: sim_node_def)
  have d: "RenterDownloadGet ?tn (siaPath demo_remote)
             (filepath_Join ?tn (SiaTestingDir ?tn) (Itoa 42)) 0
             (modules_FileInfo.Filesize (demo_file 1 2)) a 1 = (None, 2)" for a
    by (simp add: sim_node_def)
  have l: "demo_local = \<lparr>path = filepath_Join ?tn (SiaTestingDir ?tn) (Itoa 42),
                          LocalFile.checksum = RemoteFile.checksum demo_remote\<rparr>"
    by (simp add: j demo_local_def demo_remote_def)
  have c: "checkIntegrity ?tn demo_local 2 = (Some (New ''checksum mismatch''), 2)"
    by (simp add: sim_node_def)
  show ?thesis unfolding mismatch_node_def
    using DownloadToDisk_async_and_blocking [OF f r d l refl, of True]
      DownloadToDisk_async_and_blocking [OF f r d l refl, of False] c
    by (simp add: ErrSet_def)
qed

section \<open>Uploads\<close>

text \<open>
  C8. When the upload is accepted but the list of tracked files that the node reports
  next holds no file under the new remote path, \<open>Upload\<close> fails with the error "file is
  not tracked by the renter" under the context "uploaded file is not tracked by the
  renter", and still returns the remote file, whose path is the local file's name and
  whose checksum is the local file's checksum.
\<close>

theorem Upload_untracked_returns_remote_file:
  assumes "RenterUploadPost tn (path lf) (''/'' @ fileName tn lf) dataPieces parityPieces w
             = (None, w1)"
    and "RenterFilesGet tn w1 = ((files, None), w2)"
    and "\<forall>file \<in> set files. modules_FileInfo.SiaPath file \<noteq> fileName tn lf"
  shows "Upload tn lf dataPieces parityPieces w =
           ((Some \<lparr>siaPath = fileName tn lf, checksum = LocalFile.checksum lf\<rparr>,
             Some (Error [New ''uploaded file is not tracked by the renter'',
                          New ''file is not tracked by the renter''])),
            w2)"
proof -
  from assms(3)
  have "find (\<lambda>file. modules_FileInfo.SiaPath file = fileName tn lf) files = None"
    by (simp add: find_None_iff)
  with assms(1,2) show ?thesis
    by (simp add: Upload_def FileInfo_def Files_def AddContext_Some ErrSet_def)
qed

theorem Upload_untracked_returns_remote_file_witness:
  "Upload idle_node demo_local 2 2 0
     = ((Some \<lparr>siaPath = ''up'', checksum = [1, 2, 3]\<rparr>,
         Some (Error [New ''uploaded file is not tracked by the renter'',
                      New ''file is not tracked by the renter''])),
        2)"
proof -
  let ?tn = "sim_node (\<lambda>n. ([], None)) (\<lambda>n. ([], None)) (\<lambda>lf. None)"
  have u: "RenterUploadPost ?tn (path demo_local) (''/'' @ fileName ?tn demo_local) 2 2 0
             = (None, 1)"
    by (simp add: sim_node_def)
  have g: "RenterFilesGet ?tn 1 = (([], None), 2)"
    by (simp add: sim_node_def)
  have e: "\<forall>file \<in> set ([] :: real modules_FileInfo list).
             modules_FileInfo.SiaPath file \<noteq> fileName ?tn demo_local"
    by simp
  show ?thesis unfolding idle_node_def
    using Upload_untracked_returns_remote_file [OF u g e]
    by (simp add: demo_local_def sim_node_def)
qed

section \<open>Runs of the retry engine\<close>

lemma Retry_loop_first_success:
  assumes "fst (check w) = None" and "0 < n"
  shows "Retry_loop n interval check sleep w = check w"
proof -
  from assms(2) obtain m where "n = Suc m" by (cases n) simp_all
  with assms(1) show ?thesis by (cases "check w") simp
qed

lemma Retry_loop_one: "Retry_loop (Suc 0) interval check sleep w = check w"
  by (cases "check w") simp

lemma Retry_loop_step:
  assumes "fst (check w) \<noteq> None"
  shows "Retry_loop (Suc (Suc n)) interval check sleep w
           = Retry_loop (Suc n) interval check sleep (sleep interval (snd (check w)))"
  using assms by (cases "check w") auto

text \<open>
  On a world that counts requests, with a clock that leaves the world alone, a check that fails on each
  of the \<open>n\<close> attempts ends with the error of the \<open>n\<close>-th attempt.
\<close>

lemma Retry_loop_all_fail:
  assumes "\<And>k. k < n \<Longrightarrow> check (w + k) = (Some (e k), Suc (w + k))"
    and "0 < n"
  shows "Retry_loop n interval check (\<lambda>d x. x) w = (Some (e (n - 1)), w + n)"
  using assms
proof (induction n arbitrary: w e)
  case 0
  then show ?case by simp
next
  case (Suc n)
  have c0: "check w = (Some (e 0), Suc w)"
    using Suc.prems(1) [of 0] by simp
  show ?case
  proof (cases "n = 0")
    case True
    with c0 show ?thesis by simp
  next
    case False
    have step: "check (Suc w + k) = (Some (e (Suc k)), Suc (Suc w + k))" if "k < n" for k
      using Suc.prems(1) [of "Suc k"] that by simp
    from False have "0 < n" by simp
    from Suc.IH [of "Suc w" "\<lambda>k. e (Suc k)", OF step this]
    have "Retry_loop n interval check (\<lambda>d x. x) (Suc w) = (Some (e (Suc (n - 1))), Suc w + n)"
      by simp
    with c0 False show ?thesis by simp
  qed
qed

text \<open>
  The log of a run of the engine. When the check adds one entry to the log per attempt,
  a run with a budget of \<open>n + 1\<close> attempts makes its attempts in worlds \<open>ws\<close> and then
  \<open>wl\<close>: every attempt in \<open>ws\<close> fails and is followed by one sleep, the attempt in
  \<open>wl\<close> is the last and its result is the result of the run; there are at most \<open>n\<close>
  failed attempts before the last, and exactly \<open>n\<close> when the run fails.
\<close>

lemma Retry_loop_trace:
  assumes chk: "\<And>w tr. check' (w, tr) = (fst (check w), (snd (check w), tr @ [ev w]))"
    and slp: "\<And>d w tr. sleep' d (w, tr) = (sleep d w, tr @ [EvSleep d])"
  shows "\<exists>ws wl.
           Retry_loop (Suc n) interval check' sleep' (w, tr)
             = (fst (check wl),
                (snd (check wl), tr @ concat (map (\<lambda>x. [ev x, EvSleep interval]) ws) @ [ev wl]))
         \<and> Retry_loop (Suc n) interval check sleep w = check wl
         \<and> length ws \<le> n
         \<and> (\<forall>x \<in> set ws. fst (check x) \<noteq> None)
         \<and> (fst (check wl) \<noteq> None \<longrightarrow> length ws = n)
         \<and> hd (ws @ [wl]) = w"
proof (induction n arbitrary: w tr)
  case 0
  have "Retry_loop (Suc 0) interval check' sleep' (w, tr)
          = (fst (check w), (snd (check w), tr @ concat (map (\<lambda>x. [ev x, EvSleep interval]) []) @ [ev w]))"
    by (simp add: Retry_loop_one chk)
  moreover have "Retry_loop (Suc 0) interval check sleep w = check w"
    by (rule Retry_loop_one)
  ultimately show ?case
    by (intro exI [of _ "[]"] exI [of _ w]) simp
next
  case (Suc n)
  show ?case
  proof (cases "fst (check w) = None")
    case True
    have "Retry_loop (Suc (Suc n)) interval check' sleep' (w, tr)
            = (fst (check w), (snd (check w), tr @ concat (map (\<lambda>x. [ev x, EvSleep interval]) []) @ [ev w]))"
      using True by (simp add: chk)
    moreover have "Retry_loop (Suc (Suc n)) interval check sleep w = check w"
      by (rule Retry_loop_first_success) (simp_all add: True)
    ultimately show ?thesis
      using True by (intro exI [of _ "[]"] exI [of _ w]) simp
  next
    case False
    let ?w1 = "sleep interval (snd (check w))"
    let ?tr1 = "tr @ [ev w, EvSleep interval]"
    from Suc.IH [of ?w1 ?tr1] obtain ws wl where
      r: "Retry_loop (Suc n) interval check' sleep' (?w1, ?tr1)
            = (fst (check wl),
               (snd (check wl), ?tr1 @ concat (map (\<lambda>x. [ev x, EvSleep interval]) ws) @ [ev wl]))"
      and p: "Retry_loop (Suc n) interval check sleep ?w1 = check wl"
      and l: "length ws \<le> n"
      and f: "\<forall>x \<in> set ws. fst (check x) \<noteq> None"
      and x: "fst (check wl) \<noteq> None \<longrightarrow> length ws = n"
      by blast
    have ne: "fst (check' (w, tr)) \<noteq> None"
      using False by (simp add: chk)
    have nx: "sleep' interval (snd (check' (w, tr))) = (?w1, ?tr1)"
      by (simp add: chk slp)
    have a: "Retry_loop (Suc (Suc n)) interval check' sleep' (w, tr)
               = Retry_loop (Suc n) interval check' sleep' (?w1, ?tr1)"
      using Retry_loop_step [where check = check' and w = "(w, tr)" and sleep = sleep', OF ne]
      by (simp only: nx)
    have b: "Retry_loop (Suc (Suc n)) interval check sleep w
               = Retry_loop (Suc n) interval check sleep ?w1"
      using Retry_loop_step [where check = check and w = w and sleep = sleep, OF False] .
    show ?thesis
      using a b r p l f x False
      by (intro exI [of _ "w # ws"] exI [of _ wl]) simp
  qed
qed


lemma logged_apply:
  "logged check (w, tr) = (fst (check w), (snd (check w), tr @ [EvCheck (fst (check w))]))"
  by (simp add: logged_def split: prod.splits)

text \<open>
  C9. A run of \<open>Retry\<close> with a budget of one attempt invokes the check once and does not
  sleep, whatever the check returns: the log holds the one attempt and nothing else. With a
  budget of \<open>maxAttempts \<ge> 1\<close> the log is a series of failed attempts, each followed by
  one sleep of the given interval, and then a last attempt that is followed by nothing;
  there are fewer than \<open>maxAttempts\<close> failed attempts before the last, so at most
  \<open>maxAttempts\<close> attempts in all, and when the run fails the budget is used up. The
  result of the run is the result of the last attempt. With a budget below one there is no
  attempt and no sleep.
\<close>

theorem Retry_attempts_and_delays:
  "Retry (traced tn) 1 interval (logged check) (w, [])
     = (fst (check w), (snd (check w), [EvCheck (fst (check w))]))
   \<and> (1 \<le> maxAttempts \<longrightarrow>
        (\<exists>ws wl.
           Retry (traced tn) maxAttempts interval (logged check) (w, [])
             = (fst (check wl),
                (snd (check wl),
                 concat (map (\<lambda>x. [EvCheck (fst (check x)), EvSleep interval]) ws)
                   @ [EvCheck (fst (check wl))]))
         \<and> int (length ws) < maxAttempts
         \<and> (\<forall>x \<in> set ws. fst (check x) \<noteq> None)
         \<and> (fst (check wl) \<noteq> None \<longrightarrow> int (length ws) + 1 = maxAttempts)))
   \<and> (maxAttempts < 1 \<longrightarrow>
        Retry (traced tn) maxAttempts interval (logged check) (w, []) = (None, (w, [])))"
proof (intro conjI impI)
  show "Retry (traced tn) 1 interval (logged check) (w, [])
          = (fst (check w), (snd (check w), [EvCheck (fst (check w))]))"
    by (simp add: Retry_def Retry_loop_one logged_apply)
next
  assume m: "1 \<le> maxAttempts"
  then have n: "nat maxAttempts = Suc (nat (maxAttempts - 1))" by simp
  from Retry_loop_trace
    [where check' = "logged check" and check = check
       and ev = "\<lambda>x. EvCheck (fst (check x))"
       and sleep' = "Sleep (traced tn)" and sleep = "Sleep tn"
       and n = "nat (maxAttempts - 1)" and interval = interval and w = w and tr = "[]",
     OF logged_apply traced_calls(4)]
  obtain ws wl where
    r: "Retry_loop (Suc (nat (maxAttempts - 1))) interval (logged check) (Sleep (traced tn)) (w, [])
          = (fst (check wl),
             (snd (check wl),
              [] @ concat (map (\<lambda>x. [EvCheck (fst (check x)), EvSleep interval]) ws)
                @ [EvCheck (fst (check wl))]))"
    and l: "length ws \<le> nat (maxAttempts - 1)"
    and f: "\<forall>x \<in> set ws. fst (check x) \<noteq> None"
    and x: "fst (check wl) \<noteq> None \<longrightarrow> length ws = nat (maxAttempts - 1)"
    by blast
  from l m have l': "int (length ws) < maxAttempts" by simp
  from x m have x': "fst (check wl) \<noteq> None \<longrightarrow> int (length ws) + 1 = maxAttempts" by auto
  from r have "Retry (traced tn) maxAttempts interval (logged check) (w, [])
      = (fst (check wl),
         (snd (check wl),
          concat (map (\<lambda>x. [EvCheck (fst (check x)), EvSleep interval]) ws)
            @ [EvCheck (fst (check wl))]))"
    by (simp only: Retry_def n append_Nil)
  with l' f x'
  show "\<exists>ws wl.
           Retry (traced tn) maxAttempts interval (logged check) (w, [])
             = (fst (check wl),
                (snd (check wl),
                 concat (map (\<lambda>x. [EvCheck (fst (check x)), EvSleep interval]) ws)
                   @ [EvCheck (fst (check wl))]))
         \<and> int (length ws) < maxAttempts
         \<and> (\<forall>x \<in> set ws. fst (check x) \<noteq> None)
         \<and> (fst (check wl) \<noteq> None \<longrightarrow> int (length ws) + 1 = maxAttempts)"
    by blast
next
  assume "maxAttempts < 1"
  then have "nat maxAttempts = 0" by simp
  then show "Retry (traced tn) maxAttempts interval (logged check) (w, []) = (None, (w, []))"
    by (simp add: Retry_def)
qed

theorem Retry_attempts_and_delays_witness:
  "(1::int) \<le> 3
   \<and> Retry (traced idle_node) 1 5
       (logged demo_check) (0, [])
     = (Some (New ''not yet''), (1, [EvCheck (Some (New ''not yet''))]))
   \<and> Retry (traced idle_node) 3 5
       (logged demo_check) (0, [])
     = (None, (2, [EvCheck (Some (New ''not yet'')), EvSleep 5, EvCheck None]))"
proof -
  let ?tn = "sim_node (\<lambda>n. ([], None)) (\<lambda>n. ([], None)) (\<lambda>lf. None)"
  let ?c = "\<lambda>n::nat. (if n < 1 then Some (New ''not yet'') else (None :: real error option), Suc n)"
  note inst = Retry_attempts_and_delays [of ?tn 5 ?c 0 3]
  have h: "(1::int) \<le> 3" by simp
  from inst have one: "Retry (traced ?tn) 1 5 (logged ?c) (0, [])
      = (Some (New ''not yet''), (1, [EvCheck (Some (New ''not yet''))]))"
    by simp
  from inst h obtain ws wl where
    r: "Retry (traced ?tn) 3 5 (logged ?c) (0, [])
          = (fst (?c wl),
             (snd (?c wl),
              concat (map (\<lambda>x. [EvCheck (fst (?c x)), EvSleep 5]) ws) @ [EvCheck (fst (?c wl))]))"
    and l: "int (length ws) < 3"
    by blast
  have run: "Retry (traced ?tn) 3 5 (logged ?c) (0, [])
               = (None, (2, [EvCheck (Some (New ''not yet'')), EvSleep 5, EvCheck None]))"
    by (simp add: Retry_def eval_nat_numeral logged_apply traced_calls(4) sim_node_def)
  from h one run show ?thesis unfolding idle_node_def demo_check_def by simp
qed


section \<open>Waiting for a download\<close>

text \<open>
  C10. \<open>DownloadInfo\<close> never returns an absent record with a nil error: whenever the
  error is nil a record is returned. Hence the polling check of \<open>WaitForDownload\<close>
  never succeeds through its branch for an absent record: whenever the check succeeds,
  \<open>DownloadInfo\<close> has returned a record, and that record is completed.
\<close>

theorem DownloadInfo_nil_error_has_record:
  "(snd (fst (DownloadInfo tn lf rf w)) = None \<longrightarrow> fst (fst (DownloadInfo tn lf rf w)) \<noteq> None)
   \<and> (fst (download_check tn lf rf w) = None \<longrightarrow>
        (\<exists>di. fst (fst (DownloadInfo tn lf rf w)) = Some di \<and> Completed di))"
proof -
  have a: "snd (fst (DownloadInfo tn lf rf w)) = None \<longrightarrow> fst (fst (DownloadInfo tn lf rf w)) \<noteq> None"
    by (simp add: DownloadInfo_def Let_def split: prod.splits option.splits)
  have "fst (download_check tn lf rf w) = None \<longrightarrow>
          (\<exists>di. fst (fst (DownloadInfo tn lf rf w)) = Some di \<and> Completed di)"
    using a
    by (auto simp add: download_check_def AddContext_eq_None split: prod.splits option.splits if_splits)
  with a show ?thesis by simp
qed

theorem DownloadInfo_nil_error_has_record_witness:
  "snd (fst (DownloadInfo
       (queue_node (demo_download 10 10 True))
       demo_local demo_remote 0)) = None
   \<and> fst (download_check
       (queue_node (demo_download 10 10 True))
       demo_local demo_remote 0) = None
   \<and> fst (fst (DownloadInfo
       (queue_node (demo_download 10 10 True))
       demo_local demo_remote 0)) = Some (demo_download 10 10 True)"
proof -
  let ?tn = "sim_node (\<lambda>n. ([demo_download 10 10 True], None)) (\<lambda>n. ([], None)) (\<lambda>lf. None)"
  have d: "DownloadInfo ?tn demo_local demo_remote 0 = ((Some (demo_download 10 10 True), None), 1)"
    by (rule DownloadInfo_found [where rdq = "[demo_download 10 10 True]"])
      (simp_all add: sim_node_def demo_local_def demo_remote_def demo_download_def)
  have cd: "Completed (demo_download 10 10 True)"
    by (simp add: demo_download_def)
  have c: "fst (download_check ?tn demo_local demo_remote 0) = None"
    by (simp add: download_check_def d cd)
  show ?thesis unfolding queue_node_def
    using DownloadInfo_nil_error_has_record [of ?tn demo_local demo_remote 0] c d
    by simp
qed

text \<open>
  C2. \<open>WaitForDownload\<close> should succeed on the first poll that finds no matching
  record. It does not: against a node whose download queue stays empty the first poll
  fails with "download info not found" under the context "couldn't retrieve DownloadInfo",
  so does every later one, and the call returns that error after 1000 listings.
\<close>

theorem WaitForDownload_absent_record_fails:
  "download_check idle_node demo_local demo_remote 0
   = (Some (Error [New ''couldn't retrieve DownloadInfo'', New ''download info not found'']), 1)
   \<and> WaitForDownload idle_node demo_local demo_remote 0
   = (Some (Error [New ''couldn't retrieve DownloadInfo'', New ''download info not found'']),
      1000)"
proof -
  let ?tn = "sim_node (\<lambda>n. ([], None)) (\<lambda>n. ([], None)) (\<lambda>lf. None)"
  let ?e = "Error [New ''couldn't retrieve DownloadInfo'', New ''download info not found'']
              :: real error"
  have chk: "download_check ?tn demo_local demo_remote (0 + k) = (Some ?e, Suc (0 + k))" for k
    by (simp add: download_check_def DownloadInfo_def sim_node_def AddContext_Some ErrSet_def)
  have slp: "Sleep ?tn = (\<lambda>d x. x)"
    by (simp add: sim_node_def)
  have "Retry_loop 1000 (100 * Millisecond) (download_check ?tn demo_local demo_remote)
          (\<lambda>d x. x) 0 = (Some ?e, 0 + 1000)"
    using Retry_loop_all_fail
      [where check = "download_check ?tn demo_local demo_remote" and e = "\<lambda>k. ?e"
         and n = 1000 and w = 0, OF chk]
    by simp
  then have "WaitForDownload ?tn demo_local demo_remote 0 = (Some ?e, 1000)"
    by (simp add: WaitForDownload_def Retry_def slp)
  with chk [of 0] show ?thesis unfolding idle_node_def by simp
qed


section \<open>Waiting for an upload\<close>

lemma Retry_first_success:
  assumes "fst (check w) = None" and "0 < maxAttempts"
  shows "Retry tn maxAttempts interval check w = check w"
  using assms by (simp add: Retry_def Retry_loop_first_success)

lemma traced_FileInfo_listed:
  "FileInfo (traced tn) rf (w, tr)
     = (fst (FileInfo tn rf w), (snd (FileInfo tn rf w), tr @ [listed tn w]))"
  by (simp add: traced_FileInfo listed_def)

lemma traced_progress_check:
  "progress_check (traced tn) rf p (w, tr)
     = (fst (progress_check tn rf p w), (snd (progress_check tn rf p w), tr @ [listed tn w]))"
  by (simp add: progress_check_def traced_FileInfo_listed split: prod.splits)

lemma traced_redundancy_check:
  "redundancy_check (traced tn) rf r (w, tr)
     = (fst (redundancy_check tn rf r w), (snd (redundancy_check tn rf r w), tr @ [listed tn w]))"
  by (simp add: redundancy_check_def traced_FileInfo_listed split: prod.splits)

text \<open>What one poll returns, by the outcome of its lookup.\<close>

lemma progress_check_result:
  "progress_check tn rf p w =
     ((case snd (fst (FileInfo tn rf w)) of
         Some e \<Rightarrow> Some (Error (New ''couldn't retrieve FileInfo'' # ErrSet e))
       | None \<Rightarrow>
           if UploadProgress (fst (fst (FileInfo tn rf w))) < p
           then Some (Errorf ''progress should be %v but was %v''
                        [p, UploadProgress (fst (fst (FileInfo tn rf w)))])
           else None),
      snd (FileInfo tn rf w))"
  by (simp add: progress_check_def AddContext_Some split: prod.splits option.splits)

lemma redundancy_check_result:
  "redundancy_check tn rf r w =
     ((case snd (fst (FileInfo tn rf w)) of
         Some e \<Rightarrow> Some (Error (New ''couldn't retrieve FileInfo'' # ErrSet e))
       | None \<Rightarrow>
           if Redundancy (fst (fst (FileInfo tn rf w))) < r
           then Some (Errorf ''redundancy should be %v but was %v''
                        [r, Redundancy (fst (fst (FileInfo tn rf w)))])
           else None),
      snd (FileInfo tn rf w))"
  by (simp add: redundancy_check_def AddContext_Some split: prod.splits option.splits)

text \<open>
  The log of a wait whose first lookup succeeds: the first lookup, then the polls of the
  retry engine with a budget of 1000 attempts and 100 ms between them.
\<close>

lemma wait_polls:
  assumes chk: "\<And>w tr. check' (w, tr) = (fst (check w), (snd (check w), tr @ [listed tn w]))"
  shows "\<exists>ws wl.
           Retry (traced tn) 1000 (100 * Millisecond) check' (w1, [ev0])
             = (fst (check wl),
                (snd (check wl),
                 ev0 # concat (map (\<lambda>x. [listed tn x, EvSleep (100 * Millisecond)]) ws)
                   @ [listed tn wl]))
         \<and> length ws < 1000
         \<and> (\<forall>x \<in> set ws. fst (check x) \<noteq> None)
         \<and> (fst (check wl) \<noteq> None \<longrightarrow> length ws = 999)"
proof -
  from Retry_loop_trace
    [where check' = check' and check = check and ev = "listed tn"
       and sleep' = "Sleep (traced tn)" and sleep = "Sleep tn"
       and n = 999 and interval = "100 * Millisecond" and w = w1 and tr = "[ev0]",
     OF chk traced_calls(4)]
  obtain ws wl where
    r: "Retry_loop (Suc 999) (100 * Millisecond) check' (Sleep (traced tn)) (w1, [ev0])
          = (fst (check wl),
             (snd (check wl),
              [ev0] @ concat (map (\<lambda>x. [listed tn x, EvSleep (100 * Millisecond)]) ws)
                @ [listed tn wl]))"
    and l: "length ws \<le> 999"
    and f: "\<forall>x \<in> set ws. fst (check x) \<noteq> None"
    and x: "fst (check wl) \<noteq> None \<longrightarrow> length ws = 999"
    by blast
  have n: "nat 1000 = Suc 999" by simp
  from r have "Retry (traced tn) 1000 (100 * Millisecond) check' (w1, [ev0])
      = (fst (check wl),
         (snd (check wl),
          ev0 # concat (map (\<lambda>x. [listed tn x, EvSleep (100 * Millisecond)]) ws)
            @ [listed tn wl]))"
    by (simp only: Retry_def n append_Cons append_Nil)
  moreover from l have "length ws < 1000" by simp
  ultimately show ?thesis using f x by blast
qed

lemma WaitForUploadProgress_untracked:
  assumes "snd (fst (FileInfo tn rf w)) \<noteq> None"
  shows "WaitForUploadProgress (traced tn) rf p (w, [])
           = (Some (New ''file is not tracked by renter''), (snd (FileInfo tn rf w), [listed tn w]))"
  using assms by (simp add: WaitForUploadProgress_def traced_FileInfo_listed case_prod_beta)

lemma WaitForUploadProgress_tracked:
  assumes "snd (fst (FileInfo tn rf w)) = None"
  shows "\<exists>ws wl.
           WaitForUploadProgress (traced tn) rf p (w, [])
             = (fst (progress_check tn rf p wl),
                (snd (progress_check tn rf p wl),
                 listed tn w # concat (map (\<lambda>x. [listed tn x, EvSleep (100 * Millisecond)]) ws)
                   @ [listed tn wl]))
         \<and> length ws < 1000
         \<and> (\<forall>x \<in> set ws. fst (progress_check tn rf p x) \<noteq> None)
         \<and> (fst (progress_check tn rf p wl) \<noteq> None \<longrightarrow> length ws = 999)"
proof -
  have "WaitForUploadProgress (traced tn) rf p (w, [])
          = Retry (traced tn) 1000 (100 * Millisecond) (progress_check (traced tn) rf p)
              (snd (FileInfo tn rf w), [listed tn w])"
    using assms by (simp add: WaitForUploadProgress_def traced_FileInfo_listed case_prod_beta)
  with wait_polls [where check' = "progress_check (traced tn) rf p"
      and check = "progress_check tn rf p" and tn = tn, OF traced_progress_check]
  show ?thesis by simp
qed

lemma WaitForUploadRedundancy_untracked:
  assumes "snd (fst (FileInfo tn rf w)) \<noteq> None"
  shows "WaitForUploadRedundancy (traced tn) rf r (w, [])
           = (Some (New ''file is not tracked by renter''), (snd (FileInfo tn rf w), [listed tn w]))"
  using assms by (simp add: WaitForUploadRedundancy_def traced_FileInfo_listed case_prod_beta)

lemma WaitForUploadRedundancy_tracked:
  assumes "snd (fst (FileInfo tn rf w)) = None"
  shows "\<exists>ws wl.
           WaitForUploadRedundancy (traced tn) rf r (w, [])
             = (fst (redundancy_check tn rf r wl),
                (snd (redundancy_check tn rf r wl),
                 listed tn w # concat (map (\<lambda>x. [listed tn x, EvSleep (100 * Millisecond)]) ws)
                   @ [listed tn wl]))
         \<and> length ws < 1000
         \<and> (\<forall>x \<in> set ws. fst (redundancy_check tn rf r x) \<noteq> None)
         \<and> (fst (redundancy_check tn rf r wl) \<noteq> None \<longrightarrow> length ws = 999)"
proof -
  have "WaitForUploadRedundancy (traced tn) rf r (w, [])
          = Retry (traced tn) 1000 (100 * Millisecond) (redundancy_check (traced tn) rf r)
              (snd (FileInfo tn rf w), [listed tn w])"
    using assms by (simp add: WaitForUploadRedundancy_def traced_FileInfo_listed case_prod_beta)
  with wait_polls [where check' = "redundancy_check (traced tn) rf r"
      and check = "redundancy_check tn rf r" and tn = tn, OF traced_redundancy_check]
  show ?thesis by simp
qed


text \<open>
  C6 (as amended). \<open>WaitForUploadProgress\<close> and \<open>WaitForUploadRedundancy\<close> first look
  the file up once. When that lookup fails they fail at once with "file is not tracked by
  renter": the log holds the one lookup, no poll and no sleep. Otherwise they poll: the
  log holds the first lookup, then failed polls each followed by a sleep of 100 ms, then a
  last poll; there are at most 1000 polls, and exactly 1000 when the wait fails. The
  result of the wait is the result of the last poll. A poll whose lookup succeeds fails
  exactly when the reported value is below the target, with an error that carries the
  target and the value this poll has seen; a poll whose lookup fails returns the error of
  the lookup under the context "couldn't retrieve FileInfo", which carries no value.
\<close>

theorem WaitForUpload_polling:
  "(snd (fst (FileInfo tn rf w)) \<noteq> None \<longrightarrow>
      WaitForUploadProgress (traced tn) rf p (w, [])
        = (Some (New ''file is not tracked by renter''), (snd (FileInfo tn rf w), [listed tn w]))
    \<and> WaitForUploadRedundancy (traced tn) rf r (w, [])
        = (Some (New ''file is not tracked by renter''), (snd (FileInfo tn rf w), [listed tn w])))
   \<and> (snd (fst (FileInfo tn rf w)) = None \<longrightarrow>
        (\<exists>ws wl.
           WaitForUploadProgress (traced tn) rf p (w, [])
             = (fst (progress_check tn rf p wl),
                (snd (progress_check tn rf p wl),
                 listed tn w # concat (map (\<lambda>x. [listed tn x, EvSleep (100 * Millisecond)]) ws)
                   @ [listed tn wl]))
         \<and> length ws < 1000
         \<and> (\<forall>x \<in> set ws. fst (progress_check tn rf p x) \<noteq> None)
         \<and> (fst (progress_check tn rf p wl) \<noteq> None \<longrightarrow> length ws = 999))
      \<and> (\<exists>ws wl.
           WaitForUploadRedundancy (traced tn) rf r (w, [])
             = (fst (redundancy_check tn rf r wl),
                (snd (redundancy_check tn rf r wl),
                 listed tn w # concat (map (\<lambda>x. [listed tn x, EvSleep (100 * Millisecond)]) ws)
                   @ [listed tn wl]))
         \<and> length ws < 1000
         \<and> (\<forall>x \<in> set ws. fst (redundancy_check tn rf r x) \<noteq> None)
         \<and> (fst (redundancy_check tn rf r wl) \<noteq> None \<longrightarrow> length ws = 999)))
   \<and> progress_check tn rf p x =
        ((case snd (fst (FileInfo tn rf x)) of
            Some e \<Rightarrow> Some (Error (New ''couldn't retrieve FileInfo'' # ErrSet e))
          | None \<Rightarrow>
              if UploadProgress (fst (fst (FileInfo tn rf x))) < p
              then Some (Errorf ''progress should be %v but was %v''
                           [p, UploadProgress (fst (fst (FileInfo tn rf x)))])
              else None),
         snd (FileInfo tn rf x))
   \<and> redundancy_check tn rf r x =
        ((case snd (fst (FileInfo tn rf x)) of
            Some e \<Rightarrow> Some (Error (New ''couldn't retrieve FileInfo'' # ErrSet e))
          | None \<Rightarrow>
              if Redundancy (fst (fst (FileInfo tn rf x))) < r
              then Some (Errorf ''redundancy should be %v but was %v''
                           [r, Redundancy (fst (fst (FileInfo tn rf x)))])
              else None),
         snd (FileInfo tn rf x))"
  using WaitForUploadProgress_untracked [of tn rf w p]
    WaitForUploadRedundancy_untracked [of tn rf w r]
    WaitForUploadProgress_tracked [of tn rf w p]
    WaitForUploadRedundancy_tracked [of tn rf w r]
    progress_check_result [of tn rf p x] redundancy_check_result [of tn rf r x]
  by (intro conjI impI) assumption+

theorem WaitForUpload_polling_witness:
  "snd (fst (FileInfo idle_node demo_remote 0))
     \<noteq> None
   \<and> WaitForUploadProgress
       (traced idle_node) demo_remote 1 (0, [])
     = (Some (New ''file is not tracked by renter''), (1, [EvRenterFilesGet [] None]))
   \<and> snd (fst (FileInfo tracked_node
                  demo_remote 0)) = None
   \<and> WaitForUploadProgress
       (traced tracked_node)
       demo_remote 1 (0, [])
     = (None, (2, [EvRenterFilesGet [demo_file 1 2] None, EvRenterFilesGet [demo_file 1 2] None]))"
proof -
  let ?tn1 = "sim_node (\<lambda>n. ([], None)) (\<lambda>n. ([], None)) (\<lambda>lf. None)"
  let ?tn2 = "sim_node (\<lambda>n. ([], None)) (\<lambda>n. ([demo_file 1 2], None)) (\<lambda>lf. None)"
  note inst1 = WaitForUpload_polling [of ?tn1 demo_remote 0 1 2 0]
  note inst2 = WaitForUpload_polling [of ?tn2 demo_remote 0 1 2 "Suc 0"]
  have f1: "FileInfo ?tn1 demo_remote 0
              = ((FileInfo_zero, Some (New ''file is not tracked by the renter'')), 1)"
    by (simp add: FileInfo_def Files_def sim_node_def)
  have l1: "listed ?tn1 0 = EvRenterFilesGet [] None"
    by (simp add: listed_def sim_node_def)
  from f1 have h1: "snd (fst (FileInfo ?tn1 demo_remote 0)) \<noteq> None" by simp
  from inst1 h1 have a: "WaitForUploadProgress (traced ?tn1) demo_remote 1 (0, [])
      = (Some (New ''file is not tracked by renter''), (1, [EvRenterFilesGet [] None]))"
    by (simp add: f1 l1)
  have f2: "FileInfo ?tn2 demo_remote n = ((demo_file 1 2, None), Suc n)" for n
    by (rule sim_FileInfo)
  have l2: "listed ?tn2 n = EvRenterFilesGet [demo_file 1 2] None" for n
    by (simp add: listed_def sim_node_def)
  from f2 have h2: "snd (fst (FileInfo ?tn2 demo_remote 0)) = None" by simp
  have up: "UploadProgress (demo_file 1 2) = 1"
    by (simp add: demo_file_def)
  from inst2 have c: "progress_check ?tn2 demo_remote 1 (Suc 0) = (None, 2)"
    by (simp add: f2 up)
  have "progress_check (traced ?tn2) demo_remote 1 (Suc 0, [listed ?tn2 0])
          = (None, (2, [listed ?tn2 0, listed ?tn2 (Suc 0)]))"
    by (simp add: traced_progress_check c)
  then have "Retry (traced ?tn2) 1000 (100 * Millisecond) (progress_check (traced ?tn2) demo_remote 1)
               (Suc 0, [listed ?tn2 0]) = (None, (2, [listed ?tn2 0, listed ?tn2 (Suc 0)]))"
    by (simp add: Retry_first_success)
  then have b: "WaitForUploadProgress (traced ?tn2) demo_remote 1 (0, [])
      = (None, (2, [EvRenterFilesGet [demo_file 1 2] None, EvRenterFilesGet [demo_file 1 2] None]))"
    by (simp add: WaitForUploadProgress_def traced_FileInfo_listed f2 l2)
  from h1 a h2 b show ?thesis unfolding idle_node_def tracked_node_def by simp
qed

text \<open>
  The claim as written fails where it says that the error of an exhausted wait carries the
  last progress seen. Here the file is tracked, the first 999 polls see a progress of one
  half, and the lookup of the last poll is refused: the wait returns the error of that
  lookup, and the progress of one half, seen by the poll before, is not in it.
\<close>

theorem WaitForUpload_polling_counterexample:
  "WaitForUploadProgress
     refusing_node
     demo_remote 1 0
   = (Some (Error [New ''couldn't retrieve FileInfo'', New ''connection refused'']), 1001)
   \<and> progress_check
     refusing_node
     demo_remote 1 999
   = (Some (Errorf ''progress should be %v but was %v'' [1, 1 / 2]), 1000)"
proof -
  let ?tn = "sim_node (\<lambda>n. ([], None))
        (\<lambda>n. if n < 1000 then ([demo_file (1 / 2) 2], None)
              else ([], Some (New ''connection refused'')))
        (\<lambda>lf. None)"
  let ?e = "\<lambda>k::nat. if k < 999
              then Errorf ''progress should be %v but was %v'' [1, 1 / 2 :: real]
              else Error [New ''couldn't retrieve FileInfo'', New ''connection refused'']"
  have fi: "FileInfo ?tn demo_remote n
              = (if n < 1000 then ((demo_file (1 / 2) 2, None), Suc n)
                 else ((FileInfo_zero, Some (New ''connection refused'')), Suc n))" for n
    by (simp add: FileInfo_def Files_def sim_node_def demo_file_def demo_remote_def)
  have pc: "progress_check ?tn demo_remote 1 n
              = (if n < 1000
                 then (Some (Errorf ''progress should be %v but was %v'' [1, 1 / 2]), Suc n)
                 else (Some (Error [New ''couldn't retrieve FileInfo'', New ''connection refused'']),
                       Suc n))" for n
    by (simp add: progress_check_def fi AddContext_Some ErrSet_def demo_file_def)
  have chk: "progress_check ?tn demo_remote 1 (1 + k) = (Some (?e k), Suc (1 + k))"
    if "k < 1000" for k
    using that by (simp add: pc)
  have slp: "Sleep ?tn = (\<lambda>d x. x)"
    by (simp add: sim_node_def)
  have "Retry_loop 1000 (100 * Millisecond) (progress_check ?tn demo_remote 1) (\<lambda>d x. x) 1
          = (Some (?e (1000 - 1)), 1 + 1000)"
    by (rule Retry_loop_all_fail [where e = ?e, OF chk]) simp_all
  then have "WaitForUploadProgress ?tn demo_remote 1 0
      = (Some (Error [New ''couldn't retrieve FileInfo'', New ''connection refused'']), 1001)"
    by (simp add: WaitForUploadProgress_def Retry_def slp fi)
  moreover have "progress_check ?tn demo_remote 1 999
      = (Some (Errorf ''progress should be %v but was %v'' [1, 1 / 2]), 1000)"
    by (simp add: pc)
  ultimately show ?thesis unfolding refusing_node_def by simp
qed

section \<open>Uploading a new file and waiting for it\<close>

















end
